theory Spec2Isabelle
  imports Main "HOL-Library.AList" "HOL-Library.Char_ord" "HOL-Library.List_Lexorder"
    "HOL-Library.Sublist"
begin

section \<open>Data model (src/pages/Dashboard.tsx, lines 11-27)\<close>

text \<open>
  User ids are the uuid strings of the \<open>profiles.user_id\<close> column. The rows of the two
  tables are the TypeScript interfaces \<open>Profile\<close> and \<open>Friendship\<close>; both have fields
  \<open>id\<close> and \<open>user_id\<close>, so these two are always written with the record's name in front.
  \<open>FriendSuggestion extends Profile\<close> is a record extension.
\<close>

type_synonym uid = string

record Friendship =
  id :: string
  user_id :: uid
  friend_id :: uid

record Profile =
  id :: string
  user_id :: uid
  name :: string
  email :: string
  bio :: "string option"

record FriendSuggestion = Profile +
  mutualFriends :: nat

section \<open>The suggestion computation (calculateSuggestions, lines 130-173)\<close>

subsection \<open>A JavaScript Map: keys in insertion order\<close>

text \<open>
  \<open>new Map<string, number>()\<close> iterates its entries in the order in which the keys were
  first set; setting a key that is present replaces the value and keeps the position.
  This is an association list with \<open>AList.update\<close>.
\<close>

type_synonym js_map = "(uid \<times> nat) list"

definition map_get :: "js_map \<Rightarrow> uid \<Rightarrow> nat option" where
  "map_get m k = map_of m k"

definition map_set :: "js_map \<Rightarrow> uid \<Rightarrow> nat \<Rightarrow> js_map" where
  "map_set m k v = AList.update k v m"

subsection \<open>The two nested forEach loops (lines 142-161)\<close>

text \<open>Line 146-148: the rows that mention \<open>friendId\<close> in either column.\<close>

definition friendOfFriendships :: "Friendship list \<Rightarrow> uid \<Rightarrow> Friendship list" where
  "friendOfFriendships allFriendships friendId =
     filter (\<lambda>f. Friendship.user_id f = friendId \<or> friend_id f = friendId) allFriendships"

text \<open>Line 151: the other end of a row, seen from \<open>friendId\<close>.\<close>

definition potentialFriendId :: "uid \<Rightarrow> Friendship \<Rightarrow> uid" where
  "potentialFriendId friendId f =
     (if Friendship.user_id f = friendId then friend_id f else Friendship.user_id f)"

text \<open>
  Lines 150-160, the body of the inner loop: one row \<open>f\<close> of \<open>friendOfFriendships\<close>.
  \<open>suggestionsMap.get(k) || 0\<close> is 0 for a missing key.
\<close>

definition inner_step :: "uid \<Rightarrow> uid list \<Rightarrow> uid \<Rightarrow> js_map \<Rightarrow> Friendship \<Rightarrow> js_map" where
  "inner_step user friendIds friendId m f =
     (let p = potentialFriendId friendId f in
      if p \<noteq> user \<and> p \<notin> set friendIds
      then map_set m p ((case map_get m p of None \<Rightarrow> 0 | Some c \<Rightarrow> c) + 1)
      else m)"

text \<open>Lines 145-161, the body of the outer loop: one \<open>friendId\<close>.\<close>

definition outer_step :: "uid \<Rightarrow> uid list \<Rightarrow> Friendship list \<Rightarrow> js_map \<Rightarrow> uid \<Rightarrow> js_map" where
  "outer_step user friendIds allFriendships m friendId =
     foldl (inner_step user friendIds friendId) m (friendOfFriendships allFriendships friendId)"

definition suggestionsMap :: "uid \<Rightarrow> uid list \<Rightarrow> Friendship list \<Rightarrow> js_map" where
  "suggestionsMap user friendIds allFriendships =
     foldl (outer_step user friendIds allFriendships) [] friendIds"

subsection \<open>Entries to suggestions, and the sort (lines 164-170)\<close>

text \<open>
  \<open>Array.prototype.sort\<close> is stable and is driven by a comparator: \<open>a\<close> stays in front
  of \<open>b\<close> unless \<open>cmp(a, b) > 0\<close>. Insertion from the right end is such a sort.
\<close>

fun insort_cmp :: "('a \<Rightarrow> 'a \<Rightarrow> int) \<Rightarrow> 'a \<Rightarrow> 'a list \<Rightarrow> 'a list" where
  "insort_cmp cmp x [] = [x]"
| "insort_cmp cmp x (y # ys) =
     (if cmp x y \<le> 0 then x # y # ys else y # insort_cmp cmp x ys)"

definition sort_cmp :: "('a \<Rightarrow> 'a \<Rightarrow> int) \<Rightarrow> 'a list \<Rightarrow> 'a list" where
  "sort_cmp cmp xs = foldr (insort_cmp cmp) xs []"

text \<open>Line 170: \<open>(a, b) => b.mutualFriends - a.mutualFriends\<close>.\<close>

definition by_mutual :: "FriendSuggestion \<Rightarrow> FriendSuggestion \<Rightarrow> int" where
  "by_mutual a b = int (mutualFriends b) - int (mutualFriends a)"

text \<open>Lines 165-168: \<open>allUsers.find(...)\<close>, then the profile spread with the count.\<close>

definition with_mutual :: "Profile \<Rightarrow> nat \<Rightarrow> FriendSuggestion" where
  "with_mutual userProfile mutualCount =
     \<lparr>Profile.id = Profile.id userProfile, user_id = Profile.user_id userProfile,
      name = name userProfile, email = email userProfile, bio = bio userProfile,
      mutualFriends = mutualCount\<rparr>"

definition entry_to_suggestion :: "Profile list \<Rightarrow> uid \<times> nat \<Rightarrow> FriendSuggestion option" where
  "entry_to_suggestion allUsers e =
     (case find (\<lambda>u. Profile.user_id u = fst e) allUsers of
        Some userProfile \<Rightarrow> Some (with_mutual userProfile (snd e))
      | None \<Rightarrow> None)"

text \<open>The list before \<open>.sort\<close>: \<open>.map(...)\<close> and \<open>.filter(s => s !== null)\<close>.\<close>

definition unsorted_suggestions ::
  "uid \<Rightarrow> Profile list \<Rightarrow> Profile list \<Rightarrow> Friendship list \<Rightarrow> FriendSuggestion list" where
  "unsorted_suggestions user friends allUsers allFriendships =
     List.map_filter (entry_to_suggestion allUsers)
       (suggestionsMap user (map Profile.user_id friends) allFriendships)"

definition suggestionsWithMutual ::
  "uid \<Rightarrow> Profile list \<Rightarrow> Profile list \<Rightarrow> Friendship list \<Rightarrow> FriendSuggestion list" where
  "suggestionsWithMutual user friends allUsers allFriendships =
     sort_cmp by_mutual (unsorted_suggestions user friends allUsers allFriendships)"

section \<open>The page's state and its read path (lines 29-128)\<close>

text \<open>
  The storage engine is a collaborator the page talks to through the supabase client.
  A read answers \<open>{ data, error }\<close>: \<open>Inr data\<close>, or \<open>Inl error\<close> with \<open>data\<close> null.
  The record \<open>reads\<close> holds the answer of the client to each read the page makes.
\<close>

datatype error =
    TransientStoreFailure
  | NotSingleRow
  | NotAuthorized
  | PolicyViolation
  | CheckViolation
  | UniqueViolation
  | ForeignKeyViolation
  | PrimaryKeyViolation

record reads =
  profile_of :: "uid \<Rightarrow> error + Profile"
  friendships_of :: "uid \<Rightarrow> error + Friendship list"
  profiles_in :: "uid list \<Rightarrow> error + Profile list"
  profiles_except :: "uid \<Rightarrow> error + Profile list"
  all_friendships :: "error + Friendship list"

datatype toast = Toast_error string | Toast_success string

record dashboard =
  profile :: "Profile option"
  friends :: "Profile list"
  suggestions :: "FriendSuggestion list"
  allUsers :: "Profile list"
  loading :: bool
  actionLoading :: "string option"
  toasts :: "toast list"

definition toast_error :: "string \<Rightarrow> dashboard \<Rightarrow> dashboard" where
  "toast_error msg st = st\<lparr>toasts := toasts st @ [Toast_error msg]\<rparr>"

definition toast_success :: "string \<Rightarrow> dashboard \<Rightarrow> dashboard" where
  "toast_success msg st = st\<lparr>toasts := toasts st @ [Toast_success msg]\<rparr>"

text \<open>Lines 54-69. \<open>user\<close> is the session's user, \<open>None\<close> when signed out.\<close>

definition loadProfile :: "uid option \<Rightarrow> reads \<Rightarrow> dashboard \<Rightarrow> dashboard" where
  "loadProfile user db st =
     (case user of
        None \<Rightarrow> st
      | Some u \<Rightarrow>
          (case profile_of db u of
             Inl e \<Rightarrow> toast_error ''Failed to load profile'' st
           | Inr data \<Rightarrow> st\<lparr>profile := Some data\<rparr>))"

text \<open>Lines 84-86: the other end of every row that mentions the user.\<close>

definition friendIds :: "uid \<Rightarrow> Friendship list \<Rightarrow> uid list" where
  "friendIds u friendshipsData =
     map (\<lambda>f. if Friendship.user_id f = u then friend_id f else Friendship.user_id f)
       friendshipsData"

text \<open>Lines 71-104.\<close>

definition loadFriends :: "uid option \<Rightarrow> reads \<Rightarrow> dashboard \<Rightarrow> dashboard" where
  "loadFriends user db st =
     (case user of
        None \<Rightarrow> st
      | Some u \<Rightarrow>
          (case friendships_of db u of
             Inl e \<Rightarrow> toast_error ''Failed to load friends'' st
           | Inr friendshipsData \<Rightarrow>
               (if friendIds u friendshipsData = [] then st\<lparr>friends := []\<rparr>
                else
                  (case profiles_in db (friendIds u friendshipsData) of
                     Inl e \<Rightarrow> toast_error ''Failed to load friend profiles'' st
                   | Inr friendsData \<Rightarrow> st\<lparr>friends := friendsData\<rparr>))))"

text \<open>Lines 106-120.\<close>

definition loadAllUsers :: "uid option \<Rightarrow> reads \<Rightarrow> dashboard \<Rightarrow> dashboard" where
  "loadAllUsers user db st =
     (case user of
        None \<Rightarrow> st
      | Some u \<Rightarrow>
          (case profiles_except db u of
             Inl e \<Rightarrow> toast_error ''Failed to load users'' st
           | Inr data \<Rightarrow> st\<lparr>allUsers := data\<rparr>))"

text \<open>
  Lines 44-52. \<open>Promise.all\<close> starts the three loaders in the order of the array and
  their answers may come back in any order. They write disjoint data fields, so the data
  does not depend on that order; only the order of their error toasts does, and the model
  takes the order of the array.
\<close>

definition loadData :: "uid option \<Rightarrow> reads \<Rightarrow> dashboard \<Rightarrow> dashboard" where
  "loadData user db st =
     (loadAllUsers user db (loadFriends user db (loadProfile user db (st\<lparr>loading := True\<rparr>))))
       \<lparr>loading := False\<rparr>"

text \<open>Lines 130-173. A failed fetch of the edge list leaves \<open>data\<close> null: line 140 returns.\<close>

definition calculateSuggestions :: "uid option \<Rightarrow> reads \<Rightarrow> dashboard \<Rightarrow> dashboard" where
  "calculateSuggestions user db st =
     (case user of
        None \<Rightarrow> st
      | Some u \<Rightarrow>
          (case all_friendships db of
             Inl e \<Rightarrow> st
           | Inr allFriendships \<Rightarrow>
               st\<lparr>suggestions := suggestionsWithMutual u (friends st) (allUsers st) allFriendships\<rparr>))"


subsection \<open>What the store answers to the reads\<close>

text \<open>
  The filters of the queries at lines 74-77, 93-96 and 109-112, over the rows of a table
  in the table's order.
\<close>

definition select_friendships_of :: "Friendship list \<Rightarrow> uid \<Rightarrow> Friendship list" where
  "select_friendships_of rows u =
     filter (\<lambda>f. Friendship.user_id f = u \<or> friend_id f = u) rows"

definition select_profiles_in :: "Profile list \<Rightarrow> uid list \<Rightarrow> Profile list" where
  "select_profiles_in rows ids = filter (\<lambda>p. Profile.user_id p \<in> set ids) rows"

definition select_profiles_except :: "Profile list \<Rightarrow> uid \<Rightarrow> Profile list" where
  "select_profiles_except rows u = filter (\<lambda>p. Profile.user_id p \<noteq> u) rows"

text \<open>
  The friendship graph as \<open>loadFriends\<close> reads it off an edge list: the ids adjacent to
  \<open>u\<close> (the query of lines 74-77 followed by the map of lines 84-86).
\<close>

definition neighborsOf :: "Friendship list \<Rightarrow> uid \<Rightarrow> uid list" where
  "neighborsOf edges u = friendIds u (select_friendships_of edges u)"

text \<open>
  Row-level security is enabled on both tables by the first migration. Every profile is
  visible (\<open>USING (true)\<close>); a friendship row is visible to the two users it names:
  \<open>CREATE POLICY "Users can view their friendships" ... FOR SELECT
  USING (auth.uid() = user_id OR auth.uid() = friend_id)\<close>. No later migration replaces
  this policy, and the page reads the table by \<open>select('*')\<close> only.
\<close>

definition select_policy :: "uid \<Rightarrow> Friendship \<Rightarrow> bool" where
  "select_policy auth_uid f \<longleftrightarrow> auth_uid = Friendship.user_id f \<or> auth_uid = friend_id f"

text \<open>Lines 136-138, \<open>from('friendships').select('*')\<close>, as the store answers \<open>auth_uid\<close>.\<close>

definition select_all_friendships :: "uid \<Rightarrow> Friendship list \<Rightarrow> Friendship list" where
  "select_all_friendships auth_uid rows = filter (select_policy auth_uid) rows"



section \<open>The friendship store and its write path\<close>

text \<open>
  The tables \<open>profiles\<close> and \<open>friendships\<close> of the first migration, in row order, with the
  write statements the client has sent so far (also those the store refused) and whether
  the store can be reached at all.
\<close>

datatype statement = Insert "(uid \<times> uid) list" | Delete uid uid

record backend =
  profiles :: "Profile list"
  friendships :: "Friendship list"
  sent :: "statement list"
  online :: bool

subsection \<open>INSERT INTO friendships\<close>

text \<open>
  What the store checks on a new row \<open>r\<close> as the row is inserted, given the rows \<open>rows\<close>
  already there, in this order:
  \<^item> the INSERT policy of migration 20251103123713, which replaces the first one:
    \<open>WITH CHECK (auth.uid() = user_id OR auth.uid() = friend_id)\<close>;
  \<^item> \<open>CHECK (user_id != friend_id)\<close>;
  \<^item> \<open>id UUID PRIMARY KEY\<close>;
  \<^item> \<open>UNIQUE(user_id, friend_id)\<close>.
\<close>

definition violation :: "uid \<Rightarrow> Friendship list \<Rightarrow> Friendship \<Rightarrow> error option" where
  "violation auth_uid rows r =
     (if \<not> (auth_uid = Friendship.user_id r \<or> auth_uid = friend_id r) then Some PolicyViolation
      else if Friendship.user_id r = friend_id r then Some CheckViolation
      else if Friendship.id r \<in> set (map Friendship.id rows) then Some PrimaryKeyViolation
      else if (Friendship.user_id r, friend_id r)
                \<in> set (map (\<lambda>f. (Friendship.user_id f, friend_id f)) rows)
        then Some UniqueViolation
      else None)"

text \<open>
  The rows of one INSERT statement, one after the other: each row is checked against the
  table and the rows before it.
\<close>

fun insert_rows :: "uid \<Rightarrow> Friendship list \<Rightarrow> Friendship list \<Rightarrow> error + Friendship list" where
  "insert_rows auth_uid rows [] = Inr rows"
| "insert_rows auth_uid rows (r # rs) =
     (case violation auth_uid rows r of
        Some e \<Rightarrow> Inl e
      | None \<Rightarrow> insert_rows auth_uid (rows @ [r]) rs)"

text \<open>
  Both columns \<open>REFERENCES public.profiles(user_id)\<close>: the foreign keys are checked at the
  end of the statement, when every row has passed the checks above.
\<close>

definition dangling :: "Profile list \<Rightarrow> Friendship \<Rightarrow> bool" where
  "dangling profs r \<longleftrightarrow>
     Friendship.user_id r \<notin> set (map Profile.user_id profs)
     \<or> friend_id r \<notin> set (map Profile.user_id profs)"

text \<open>The whole statement: any violation aborts it and leaves the table as it was.\<close>

definition insert_statement :: "uid \<Rightarrow> Profile list \<Rightarrow> Friendship list \<Rightarrow> Friendship list
    \<Rightarrow> error + Friendship list" where
  "insert_statement auth_uid profs rows new =
     (case insert_rows auth_uid rows new of
        Inl e \<Rightarrow> Inl e
      | Inr rows' \<Rightarrow>
          (if list_ex (dangling profs) new then Inl ForeignKeyViolation else Inr rows'))"

text \<open>
  \<open>supabase.from('friendships').insert(rows)\<close>: the client's \<open>{ error }\<close> and the store
  afterwards. The \<open>id\<close> of a row is the uuid the store draws for it
  (\<open>DEFAULT gen_random_uuid()\<close>); it is carried by the row given here.
\<close>

definition insert_friendships :: "uid \<Rightarrow> Friendship list \<Rightarrow> backend \<Rightarrow> error option \<times> backend" where
  "insert_friendships auth_uid new bk =
     (let bk1 = bk\<lparr>sent := sent bk @ [Insert (map (\<lambda>f. (Friendship.user_id f, friend_id f)) new)]\<rparr>
      in if \<not> online bk then (Some TransientStoreFailure, bk1)
         else
           (case insert_statement auth_uid (profiles bk) (friendships bk) new of
              Inl e \<Rightarrow> (Some e, bk1)
            | Inr rows \<Rightarrow> (None, bk1\<lparr>friendships := rows\<rparr>)))"

subsection \<open>DELETE FROM friendships\<close>

text \<open>
  Line 205: \<open>or(and(user_id.eq.a, friend_id.eq.b), and(user_id.eq.b, friend_id.eq.a))\<close>.
\<close>

definition delete_filter :: "uid \<Rightarrow> uid \<Rightarrow> Friendship \<Rightarrow> bool" where
  "delete_filter a b f \<longleftrightarrow>
     (Friendship.user_id f = a \<and> friend_id f = b) \<or> (Friendship.user_id f = b \<and> friend_id f = a)"

text \<open>
  The DELETE policy after the migration that adds \<open>get_network_friendships\<close>:
  \<open>USING (auth.uid() = user_id OR auth.uid() = friend_id)\<close>. A row the policy hides is
  not deleted and is no error; deleting no row is no error either.
\<close>

definition delete_policy :: "uid \<Rightarrow> Friendship \<Rightarrow> bool" where
  "delete_policy auth_uid f \<longleftrightarrow> auth_uid = Friendship.user_id f \<or> auth_uid = friend_id f"

definition delete_friendships :: "uid \<Rightarrow> uid \<Rightarrow> uid \<Rightarrow> backend \<Rightarrow> error option \<times> backend" where
  "delete_friendships auth_uid a b bk =
     (let bk1 = bk\<lparr>sent := sent bk @ [Delete a b]\<rparr>
      in if \<not> online bk then (Some TransientStoreFailure, bk1)
         else (None, bk1\<lparr>friendships :=
                 filter (\<lambda>f. \<not> (delete_filter a b f \<and> delete_policy auth_uid f)) (friendships bk)\<rparr>))"

subsection \<open>addFriend and removeFriend (lines 175-215)\<close>

text \<open>
  Both act on the store and on the page. \<open>ids\<close> are the uuids of the two new rows;
  \<open>db\<close> answers the reads of the \<open>loadData()\<close> that follows a success.
\<close>

definition addFriend ::
  "uid option \<Rightarrow> uid \<Rightarrow> string \<times> string \<Rightarrow> reads \<Rightarrow> backend \<times> dashboard \<Rightarrow> backend \<times> dashboard" where
  "addFriend user friendId ids db s =
     (case user of
        None \<Rightarrow> s
      | Some u \<Rightarrow>
          (let st1 = (snd s)\<lparr>actionLoading := Some friendId\<rparr>;
               r = insert_friendships u
                     [\<lparr>Friendship.id = fst ids, user_id = u, friend_id = friendId\<rparr>,
                      \<lparr>Friendship.id = snd ids, user_id = friendId, friend_id = u\<rparr>]
                     (fst s);
               st2 = (case fst r of
                        Some e \<Rightarrow> toast_error ''Failed to add friend'' st1
                      | None \<Rightarrow>
                          loadData user db (toast_success ''Friend added successfully!'' st1))
           in (snd r, st2\<lparr>actionLoading := None\<rparr>)))"

definition removeFriend ::
  "uid option \<Rightarrow> uid \<Rightarrow> reads \<Rightarrow> backend \<times> dashboard \<Rightarrow> backend \<times> dashboard" where
  "removeFriend user friendId db s =
     (case user of
        None \<Rightarrow> s
      | Some u \<Rightarrow>
          (let st1 = (snd s)\<lparr>actionLoading := Some friendId\<rparr>;
               r = delete_friendships u u friendId (fst s);
               st2 = (case fst r of
                        Some e \<Rightarrow> toast_error ''Failed to remove friend'' st1
                      | None \<Rightarrow> loadData user db (toast_success ''Friend removed'' st1))
           in (snd r, st2\<lparr>actionLoading := None\<rparr>)))"

section \<open>get\_network\_friendships (the SQL function of the later migrations)\<close>

text \<open>The CTE \<open>my_friends\<close>: one \<open>uid\<close> for every row that mentions \<open>p_user_id\<close>.\<close>

definition my_friends :: "uid \<Rightarrow> Friendship list \<Rightarrow> uid list" where
  "my_friends p_user_id rows =
     map (\<lambda>f. if Friendship.user_id f = p_user_id then friend_id f else Friendship.user_id f)
       (filter (\<lambda>f. Friendship.user_id f = p_user_id \<or> friend_id f = p_user_id) rows)"

text \<open>
  The CTE \<open>fof\<close>: the join of \<open>friendships f\<close> with \<open>my_friends mf\<close> on
  \<open>f.user_id = mf.uid OR f.friend_id = mf.uid\<close>, \<open>SELECT DISTINCT\<close> of the other end.
\<close>

definition fof :: "uid \<Rightarrow> Friendship list \<Rightarrow> uid list" where
  "fof p_user_id rows =
     remdups (concat (map (\<lambda>f.
        map (\<lambda>mf. if Friendship.user_id f = mf then friend_id f else Friendship.user_id f)
          (filter (\<lambda>mf. Friendship.user_id f = mf \<or> friend_id f = mf) (my_friends p_user_id rows)))
        rows))"

text \<open>The CTE \<open>network\<close>: \<open>UNION\<close> removes duplicates.\<close>

definition network :: "uid \<Rightarrow> Friendship list \<Rightarrow> uid list" where
  "network p_user_id rows = remdups (p_user_id # my_friends p_user_id rows @ fof p_user_id rows)"

text \<open>
  The function: \<open>requester\<close> is \<open>auth.uid()\<close>, NULL without a session. It is
  \<open>SECURITY DEFINER\<close>, so it reads every row of the table.
\<close>

definition get_network_friendships :: "uid option \<Rightarrow> uid \<Rightarrow> Friendship list
    \<Rightarrow> error + Friendship list" where
  "get_network_friendships requester p_user_id rows =
     (if requester = None \<or> requester \<noteq> Some p_user_id then Inl NotAuthorized
      else Inr (filter (\<lambda>f. Friendship.user_id f \<in> set (network p_user_id rows)
                           \<and> friend_id f \<in> set (network p_user_id rows)) rows))"

section \<open>Notions used by the properties\<close>

text \<open>The loaded data of the page: everything but the spinners and the toasts.\<close>

definition same_data :: "dashboard \<Rightarrow> dashboard \<Rightarrow> bool" where
  "same_data st' st \<longleftrightarrow>
     profile st' = profile st \<and> friends st' = friends st
     \<and> allUsers st' = allUsers st \<and> suggestions st' = suggestions st"

text \<open>The invariant of the two loops on the entries of \<open>suggestionsMap\<close>.\<close>

definition entries_ok :: "uid \<Rightarrow> uid list \<Rightarrow> js_map \<Rightarrow> bool" where
  "entries_ok u ids m \<longleftrightarrow> (\<forall>e \<in> set m. fst e \<noteq> u \<and> fst e \<notin> set ids \<and> 1 \<le> snd e)"






text \<open>
  The candidates in the order in which the loops meet them, with repetitions, and the
  list of keys that remembers each key where it was first noted.
\<close>

definition discoveries :: "uid \<Rightarrow> uid list \<Rightarrow> Friendship list \<Rightarrow> uid list" where
  "discoveries u ids es =
     concat (map (\<lambda>g. filter (\<lambda>c. c \<noteq> u \<and> c \<notin> set ids)
                         (map (potentialFriendId g) (friendOfFriendships es g))) ids)"

definition note_key :: "uid list \<Rightarrow> uid \<Rightarrow> uid list" where
  "note_key ks k = (if k \<in> set ks then ks else ks @ [k])"

subsection \<open>Concrete users, rows, stores and pages\<close>

definition person :: "uid \<Rightarrow> Profile" where
  "person u =
     \<lparr>Profile.id = ''p-'' @ u, user_id = u, name = u, email = u @ ''@example.org'', bio = None\<rparr>"

definition edge :: "uid \<Rightarrow> uid \<Rightarrow> Friendship" where
  "edge a b = \<lparr>Friendship.id = a @ ''-'' @ b, user_id = a, friend_id = b\<rparr>"

text \<open>The initial values of the \<open>useState\<close> hooks, lines 31-36.\<close>

definition initial :: dashboard where
  "initial = \<lparr>profile = None, friends = [], suggestions = [], allUsers = [],
              loading = True, actionLoading = None, toasts = []\<rparr>"

text \<open>A client whose every read fails.\<close>

definition unreachable :: reads where
  "unreachable = \<lparr>profile_of = (\<lambda>u. Inl TransientStoreFailure),
                  friendships_of = (\<lambda>u. Inl TransientStoreFailure),
                  profiles_in = (\<lambda>ids. Inl TransientStoreFailure),
                  profiles_except = (\<lambda>u. Inl TransientStoreFailure),
                  all_friendships = Inl TransientStoreFailure\<rparr>"

text \<open>A reachable store with a profile for each of \<open>users\<close> and the given friendship rows.\<close>

definition store :: "uid list \<Rightarrow> Friendship list \<Rightarrow> backend" where
  "store users rows =
     \<lparr>profiles = map person users, friendships = rows, sent = [], online = True\<rparr>"

section \<open>Properties of the suggestion computation\<close>

subsection \<open>The sort\<close>

lemma sort_cmp_by_mutual:
  "sort_cmp by_mutual xs = sort_key (\<lambda>s. - int (mutualFriends s)) xs"
proof -
  have ins: "insort_cmp by_mutual x ys = insort_key (\<lambda>s. - int (mutualFriends s)) x ys" for x ys
    by (induction ys) (auto simp: by_mutual_def)
  show ?thesis
    unfolding sort_cmp_def sort_key_def
    by (induction xs) (simp_all add: ins)
qed

lemma set_suggestionsWithMutual:
  "set (suggestionsWithMutual u fs us es) = set (unsorted_suggestions u fs us es)"
  by (simp add: suggestionsWithMutual_def sort_cmp_by_mutual)


subsection \<open>The entries of the Map\<close>

lemma set_map_set: "set (map_set m k v) \<subseteq> insert (k, v) (set m)"
  unfolding map_set_def by (induction m) auto

lemma map_set_ok:
  assumes "entries_ok u ids m" "k \<noteq> u" "k \<notin> set ids" "1 \<le> v"
  shows "entries_ok u ids (map_set m k v)"
  unfolding entries_ok_def
proof
  fix e assume "e \<in> set (map_set m k v)"
  then have "e = (k, v) \<or> e \<in> set m" using set_map_set [of m k v] by blast
  then show "fst e \<noteq> u \<and> fst e \<notin> set ids \<and> 1 \<le> snd e"
    using assms by (auto simp: entries_ok_def)
qed

lemma inner_step_ok: "entries_ok u ids m \<Longrightarrow> entries_ok u ids (inner_step u ids g m f)"
  by (simp add: inner_step_def Let_def map_set_ok)

lemma foldl_inner_ok:
  "entries_ok u ids m \<Longrightarrow> entries_ok u ids (foldl (inner_step u ids g) m fs)"
  by (induction fs arbitrary: m) (simp_all add: inner_step_ok)

lemma foldl_outer_ok:
  "entries_ok u ids m \<Longrightarrow> entries_ok u ids (foldl (outer_step u ids es) m gs)"
  by (induction gs arbitrary: m) (simp_all add: outer_step_def foldl_inner_ok)

lemma suggestionsMap_ok: "entries_ok u ids (suggestionsMap u ids es)"
  unfolding suggestionsMap_def by (rule foldl_outer_ok) (simp add: entries_ok_def)

lemma with_mutual_sel [simp]:
  "Profile.user_id (with_mutual p n) = Profile.user_id p"
  "mutualFriends (with_mutual p n) = n"
  by (simp_all add: with_mutual_def)

lemma unsorted_suggestions_elem:
  assumes "s \<in> set (unsorted_suggestions u fs us es)"
  shows "\<exists>e p. e \<in> set (suggestionsMap u (map Profile.user_id fs) es) \<and> p \<in> set us
      \<and> Profile.user_id p = fst e \<and> s = with_mutual p (snd e)"
proof -
  from assms obtain e where e: "e \<in> set (suggestionsMap u (map Profile.user_id fs) es)"
    and s: "entry_to_suggestion us e = Some s"
    by (auto simp: unsorted_suggestions_def List.map_filter_def)
  from s obtain p where p: "find (\<lambda>q. Profile.user_id q = fst e) us = Some p"
    and sp: "s = with_mutual p (snd e)"
    by (auto simp: entry_to_suggestion_def split: option.splits)
  from p have "p \<in> set us" "Profile.user_id p = fst e"
    by (auto simp: find_Some_iff)
  with e sp show ?thesis by blast
qed

subsection \<open>The mutual count\<close>









subsection \<open>Adjacency and rows joined once\<close>





subsection \<open>What a requester can read\<close>














subsection \<open>The count and the common neighbours\<close>



text \<open>
  Rows a requester cannot read. Starting from an empty table, \<open>u\<close> adds \<open>f\<close> and \<open>f\<close>
  adds \<open>c\<close>; the table then holds four rows. The loops add 1 for every row
  (\<open>mutualFriends_counts_rows\<close>), so on the whole table the count for \<open>c\<close> would be 2
  with the single common neighbour \<open>f\<close>. Of this table \<open>u\<close> reads the rows (u,f) and
  (f,u) only, and the page of \<open>u\<close> suggests nobody.
\<close>

lemma mirrored_rows_counted_twice:
  "friendships (fst (addFriend (Some ''f'') ''c'' (''r3'', ''r4'') unreachable
      (addFriend (Some ''u'') ''f'' (''r1'', ''r2'') unreachable
         (store [''u'', ''f'', ''c''] [], initial))))
     = [\<lparr>Friendship.id = ''r1'', user_id = ''u'', friend_id = ''f''\<rparr>,
        \<lparr>Friendship.id = ''r2'', user_id = ''f'', friend_id = ''u''\<rparr>,
        \<lparr>Friendship.id = ''r3'', user_id = ''f'', friend_id = ''c''\<rparr>,
        \<lparr>Friendship.id = ''r4'', user_id = ''c'', friend_id = ''f''\<rparr>]
   \<and> suggestionsWithMutual ''u'' [person ''f''] [person ''f'', person ''c'']
       [\<lparr>Friendship.id = ''r1'', user_id = ''u'', friend_id = ''f''\<rparr>,
        \<lparr>Friendship.id = ''r2'', user_id = ''f'', friend_id = ''u''\<rparr>,
        \<lparr>Friendship.id = ''r3'', user_id = ''f'', friend_id = ''c''\<rparr>,
        \<lparr>Friendship.id = ''r4'', user_id = ''c'', friend_id = ''f''\<rparr>]
     = [with_mutual (person ''c'') 2]
   \<and> select_all_friendships ''u''
       [\<lparr>Friendship.id = ''r1'', user_id = ''u'', friend_id = ''f''\<rparr>,
        \<lparr>Friendship.id = ''r2'', user_id = ''f'', friend_id = ''u''\<rparr>,
        \<lparr>Friendship.id = ''r3'', user_id = ''f'', friend_id = ''c''\<rparr>,
        \<lparr>Friendship.id = ''r4'', user_id = ''c'', friend_id = ''f''\<rparr>]
     = [\<lparr>Friendship.id = ''r1'', user_id = ''u'', friend_id = ''f''\<rparr>,
        \<lparr>Friendship.id = ''r2'', user_id = ''f'', friend_id = ''u''\<rparr>]
   \<and> suggestionsWithMutual ''u'' [person ''f''] [person ''f'', person ''c'']
       [\<lparr>Friendship.id = ''r1'', user_id = ''u'', friend_id = ''f''\<rparr>,
        \<lparr>Friendship.id = ''r2'', user_id = ''f'', friend_id = ''u''\<rparr>]
     = []"
  by code_simp

subsection \<open>Who is suggested\<close>

text \<open>
  C2. With the friends and the roster loaded from the same tables as the edge list
  (\<open>loadFriends\<close> and \<open>loadAllUsers\<close> on success), no suggestion is the requester and no
  suggestion is adjacent to the requester in the edge list.
\<close>

theorem suggestions_exclude_self_and_friends:
  assumes "s \<in> set (suggestionsWithMutual u
                      (select_profiles_in profs (neighborsOf edges u))
                      (select_profiles_except profs u) edges)"
  shows "Profile.user_id s \<noteq> u \<and> Profile.user_id s \<notin> set (neighborsOf edges u)"
proof -
  let ?fs = "select_profiles_in profs (neighborsOf edges u)"
  let ?us = "select_profiles_except profs u"
  from assms have "s \<in> set (unsorted_suggestions u ?fs ?us edges)"
    by (simp add: set_suggestionsWithMutual)
  then obtain e p where e: "e \<in> set (suggestionsMap u (map Profile.user_id ?fs) edges)"
    and p: "p \<in> set ?us" "Profile.user_id p = fst e" and s: "s = with_mutual p (snd e)"
    using unsorted_suggestions_elem by blast
  from e have ok: "fst e \<noteq> u" "fst e \<notin> set (map Profile.user_id ?fs)"
    using suggestionsMap_ok [of u "map Profile.user_id ?fs" edges]
    by (auto simp: entries_ok_def)
  have "fst e \<notin> set (neighborsOf edges u)"
  proof
    assume "fst e \<in> set (neighborsOf edges u)"
    with p have "p \<in> set ?fs"
      by (simp add: select_profiles_in_def select_profiles_except_def)
    with p(2) ok(2) show False by force
  qed
  with ok(1) p(2) s show ?thesis by simp
qed

text \<open>
  The first scenario of the specification: edges (1,2), (2,3), (1,4) and requester 1.
  User 3 is suggested; it is neither 1 nor one of the friends 2 and 4.
\<close>

theorem suggestions_exclude_self_and_friends_witness:
  "with_mutual (person ''3'') 1
     \<in> set (suggestionsWithMutual ''1''
          (select_profiles_in (map person [''1'', ''2'', ''3'', ''4''])
             (neighborsOf [edge ''1'' ''2'', edge ''2'' ''3'', edge ''1'' ''4''] ''1''))
          (select_profiles_except (map person [''1'', ''2'', ''3'', ''4'']) ''1'')
          [edge ''1'' ''2'', edge ''2'' ''3'', edge ''1'' ''4''])
   \<and> Profile.user_id (with_mutual (person ''3'') 1) \<noteq> ''1''
   \<and> Profile.user_id (with_mutual (person ''3'') 1)
       \<notin> set (neighborsOf [edge ''1'' ''2'', edge ''2'' ''3'', edge ''1'' ''4''] ''1'')"
proof -
  have m: "with_mutual (person ''3'') 1
     \<in> set (suggestionsWithMutual ''1''
          (select_profiles_in (map person [''1'', ''2'', ''3'', ''4''])
             (neighborsOf [edge ''1'' ''2'', edge ''2'' ''3'', edge ''1'' ''4''] ''1''))
          (select_profiles_except (map person [''1'', ''2'', ''3'', ''4'']) ''1'')
          [edge ''1'' ''2'', edge ''2'' ''3'', edge ''1'' ''4''])"
    by code_simp
  from m suggestions_exclude_self_and_friends [OF m] show ?thesis by blast
qed

text \<open>
  C10. Every suggestion is a profile of the roster \<open>allUsers\<close> with a count of at least 1
  attached, and the ids suggested are exactly the candidate ids of the Map that have a
  profile in the roster: a candidate without one is left out, and nothing else happens.
\<close>

theorem suggestions_from_roster:
  "(\<forall>s \<in> set (suggestionsWithMutual u fs us edges).
      (\<exists>p \<in> set us. s = with_mutual p (mutualFriends s)) \<and> 1 \<le> mutualFriends s)
   \<and> Profile.user_id ` set (suggestionsWithMutual u fs us edges)
       = fst ` set (suggestionsMap u (map Profile.user_id fs) edges)
           \<inter> Profile.user_id ` set us"
proof (intro conjI ballI)
  fix s assume "s \<in> set (suggestionsWithMutual u fs us edges)"
  then have "s \<in> set (unsorted_suggestions u fs us edges)"
    by (simp add: set_suggestionsWithMutual)
  then obtain e p where e: "e \<in> set (suggestionsMap u (map Profile.user_id fs) edges)"
    and p: "p \<in> set us" and s: "s = with_mutual p (snd e)"
    using unsorted_suggestions_elem by blast
  from e have "1 \<le> snd e"
    using suggestionsMap_ok [of u "map Profile.user_id fs" edges]
    by (auto simp: entries_ok_def)
  with p s show "\<exists>p \<in> set us. s = with_mutual p (mutualFriends s)" "1 \<le> mutualFriends s"
    by auto
next
  let ?m = "suggestionsMap u (map Profile.user_id fs) edges"
  have "Profile.user_id ` set (unsorted_suggestions u fs us edges)
      = fst ` set ?m \<inter> Profile.user_id ` set us" (is "?L = ?R")
  proof (intro set_eqI iffI)
    fix c assume "c \<in> ?L"
    then obtain s where "s \<in> set (unsorted_suggestions u fs us edges)"
      and "c = Profile.user_id s" by auto
    then show "c \<in> ?R" using unsorted_suggestions_elem [of s u fs us edges]
      by force
  next
    fix c assume "c \<in> ?R"
    then obtain e q where e: "e \<in> set ?m" "fst e = c"
      and q: "q \<in> set us" "Profile.user_id q = c"
      by auto
    from q obtain p where p: "find (\<lambda>r. Profile.user_id r = fst e) us = Some p"
      using e(2) by (cases "find (\<lambda>r. Profile.user_id r = fst e) us") (auto simp: find_None_iff)
    then have pc: "Profile.user_id p = c" using e(2) by (auto simp: find_Some_iff)
    from p have "entry_to_suggestion us e = Some (with_mutual p (snd e))"
      by (simp add: entry_to_suggestion_def)
    with e(1) have "with_mutual p (snd e) \<in> set (unsorted_suggestions u fs us edges)"
      by (force simp: unsorted_suggestions_def List.map_filter_def)
    then show "c \<in> ?L" using pc by force
  qed
  then show "Profile.user_id ` set (suggestionsWithMutual u fs us edges)
       = fst ` set ?m \<inter> Profile.user_id ` set us"
    by (simp add: set_suggestionsWithMutual)
qed

text \<open>
  The first scenario again, with a further edge (4,9) to a user 9 that has no profile in
  the roster: the candidates are 3 and 9, and 3 alone is suggested.
\<close>

theorem suggestions_from_roster_witness:
  "suggestionsWithMutual ''1'' [person ''2'', person ''4''] [person ''2'', person ''4'', person ''3'']
     [edge ''1'' ''2'', edge ''2'' ''3'', edge ''1'' ''4'', edge ''4'' ''9'']
     = [with_mutual (person ''3'') 1]
   \<and> (\<exists>p \<in> set [person ''2'', person ''4'', person ''3''].
         with_mutual (person ''3'') 1 = with_mutual p 1)
   \<and> fst ` set (suggestionsMap ''1'' (map Profile.user_id [person ''2'', person ''4''])
          [edge ''1'' ''2'', edge ''2'' ''3'', edge ''1'' ''4'', edge ''4'' ''9'']) = {''3'', ''9''}
   \<and> Profile.user_id ` set (suggestionsWithMutual ''1'' [person ''2'', person ''4'']
          [person ''2'', person ''4'', person ''3'']
          [edge ''1'' ''2'', edge ''2'' ''3'', edge ''1'' ''4'', edge ''4'' ''9'']) = {''3''}"
proof -
  have ev: "suggestionsWithMutual ''1'' [person ''2'', person ''4'']
       [person ''2'', person ''4'', person ''3'']
       [edge ''1'' ''2'', edge ''2'' ''3'', edge ''1'' ''4'', edge ''4'' ''9'']
     = [with_mutual (person ''3'') 1]"
    by code_simp
  have mp: "suggestionsMap ''1'' (map Profile.user_id [person ''2'', person ''4''])
          [edge ''1'' ''2'', edge ''2'' ''3'', edge ''1'' ''4'', edge ''4'' ''9'']
      = [(''3'', 1), (''9'', 1)]"
    by code_simp
  show ?thesis
    using suggestions_from_roster [of "''1''" "[person ''2'', person ''4'']"
        "[person ''2'', person ''4'', person ''3'']"
        "[edge ''1'' ''2'', edge ''2'' ''3'', edge ''1'' ''4'', edge ''4'' ''9'']"]
    unfolding ev mp by (simp add: person_def)
qed

subsection \<open>The order of the suggestions\<close>



subsection \<open>Equal counts on rows a requester cannot read\<close>

text \<open>
  The sort is stable: suggestions with one and the same count \<open>k\<close> stand as in the list
  before the sort.
\<close>

lemma ties_keep_map_order:
  "filter (\<lambda>s. mutualFriends s = k) (suggestionsWithMutual u fs us edges)
     = filter (\<lambda>s. mutualFriends s = k) (unsorted_suggestions u fs us edges)"
proof -
  have "filter (\<lambda>s. - int (mutualFriends s) = - int k) (sort_key (\<lambda>s. - int (mutualFriends s)) xs)
      = filter (\<lambda>s. - int (mutualFriends s) = - int k) xs" for xs :: "FriendSuggestion list"
    by (rule sort_key_stable)
  then show ?thesis
    by (simp add: suggestionsWithMutual_def sort_cmp_by_mutual)
qed

text \<open>
  The list before the sort is in the order of first discovery: its ids are the
  candidates in the order in which the loops first meet them, those without a profile in
  the roster left out.
\<close>

lemma keys_inner_step:
  "map fst (inner_step u ids g m f)
     = (if potentialFriendId g f \<noteq> u \<and> potentialFriendId g f \<notin> set ids
        then note_key (map fst m) (potentialFriendId g f) else map fst m)"
  by (simp add: inner_step_def Let_def map_set_def update_keys note_key_def)

lemma keys_foldl_inner:
  "map fst (foldl (inner_step u ids g) m fs)
     = foldl note_key (map fst m)
         (filter (\<lambda>c. c \<noteq> u \<and> c \<notin> set ids) (map (potentialFriendId g) fs))"
  by (induction fs arbitrary: m) (simp_all add: keys_inner_step)

lemma keys_foldl_outer:
  "map fst (foldl (outer_step u ids es) m gs)
     = foldl note_key (map fst m)
         (concat (map (\<lambda>g. filter (\<lambda>c. c \<noteq> u \<and> c \<notin> set ids)
                         (map (potentialFriendId g) (friendOfFriendships es g))) gs))"
  by (induction gs arbitrary: m) (simp_all add: outer_step_def keys_foldl_inner)

lemma suggestionsMap_keys:
  "map fst (suggestionsMap u ids es) = foldl note_key [] (discoveries u ids es)"
  by (simp add: suggestionsMap_def keys_foldl_outer discoveries_def)

lemma ids_map_filter:
  "map Profile.user_id (List.map_filter (entry_to_suggestion us) m)
     = filter (\<lambda>c. c \<in> Profile.user_id ` set us) (map fst m)"
proof (induction m)
  case Nil
  then show ?case by (simp add: List.map_filter_simps)
next
  case (Cons e m)
  show ?case
  proof (cases "find (\<lambda>q. Profile.user_id q = fst e) us")
    case None
    then have "fst e \<notin> Profile.user_id ` set us" by (auto simp: find_None_iff)
    with None Cons show ?thesis
      by (simp add: List.map_filter_simps entry_to_suggestion_def)
  next
    case (Some p)
    then have "p \<in> set us" "Profile.user_id p = fst e" by (auto simp: find_Some_iff)
    then have "fst e \<in> Profile.user_id ` set us" by force
    with Some \<open>Profile.user_id p = fst e\<close> Cons show ?thesis
      by (simp add: List.map_filter_simps entry_to_suggestion_def)
  qed
qed

lemma unsorted_in_discovery_order:
  "map Profile.user_id (unsorted_suggestions u fs us es)
     = filter (\<lambda>c. c \<in> Profile.user_id ` set us)
         (foldl note_key [] (discoveries u (map Profile.user_id fs) es))"
  by (simp add: unsorted_suggestions_def ids_map_filter suggestionsMap_keys)

text \<open>
  Requester \<open>u\<close> with the friend \<open>f\<close>, whose rows name \<open>c\<close> before \<open>b\<close>. On the whole
  table both would have the count 1, \<open>c\<close> before the smaller id \<open>b\<close>; but (f,c) and
  (f,b) are rows that \<open>u\<close> cannot read, and what \<open>u\<close> reads gives no suggestion.
\<close>

lemma tie_keeps_discovery_order:
  "suggestionsWithMutual ''u'' [person ''f''] [person ''b'', person ''c'', person ''f'']
     [edge ''u'' ''f'', edge ''f'' ''c'', edge ''f'' ''b'']
     = [with_mutual (person ''c'') 1, with_mutual (person ''b'') 1]
   \<and> select_all_friendships ''u'' [edge ''u'' ''f'', edge ''f'' ''c'', edge ''f'' ''b'']
     = [edge ''u'' ''f'']
   \<and> suggestionsWithMutual ''u'' [person ''f''] [person ''b'', person ''c'', person ''f'']
       [edge ''u'' ''f'']
     = []"
  by code_simp

section \<open>Properties of get\_network\_friendships\<close>

lemma network_covers:
  assumes g: "g \<in> set (my_friends u es)" and f: "f \<in> set es"
    and inc: "Friendship.user_id f = g \<or> friend_id f = g"
  shows "Friendship.user_id f \<in> set (network u es) \<and> friend_id f \<in> set (network u es)"
proof -
  have gn: "g \<in> set (network u es)" using g by (simp add: network_def)
  have "(if Friendship.user_id f = g then friend_id f else Friendship.user_id f) \<in> set (fof u es)"
    unfolding fof_def using g f inc by (simp del: if_split) blast
  moreover have "x \<in> set (network u es)" if "x \<in> set (fof u es)" for x
    using that by (simp add: network_def)
  ultimately have "(if Friendship.user_id f = g then friend_id f else Friendship.user_id f)
      \<in> set (network u es)" by blast
  with gn inc show ?thesis by (auto split: if_splits)
qed

lemma friendOfFriendships_network:
  assumes "g \<in> set (my_friends u es)"
  shows "friendOfFriendships
           (filter (\<lambda>f. Friendship.user_id f \<in> set (network u es)
                         \<and> friend_id f \<in> set (network u es)) es) g
       = friendOfFriendships es g"
  unfolding friendOfFriendships_def filter_filter
  using network_covers [OF assms] by (intro filter_cong) auto

lemma my_friends_neighborsOf: "my_friends u es = neighborsOf es u"
  by (simp add: my_friends_def neighborsOf_def friendIds_def select_friendships_of_def)

text \<open>
  C8. For a requester \<open>u\<close> whose friends are adjacent to \<open>u\<close> in the edge list (as
  \<open>loadFriends\<close> makes them), \<open>get_network_friendships\<close> called by \<open>u\<close> for \<open>u\<close> returns
  rows, and the computation over these rows gives the same list of suggestions, counts
  and order included, as over the whole edge list.
\<close>

theorem network_rows_same_suggestions:
  assumes "\<forall>p \<in> set fs. Profile.user_id p \<in> set (neighborsOf es u)"
  shows "\<exists>sub. get_network_friendships (Some u) u es = Inr sub
           \<and> suggestionsWithMutual u fs us sub = suggestionsWithMutual u fs us es"
proof -
  let ?sub = "filter (\<lambda>f. Friendship.user_id f \<in> set (network u es)
                         \<and> friend_id f \<in> set (network u es)) es"
  let ?ids = "map Profile.user_id fs"
  have "outer_step u ?ids ?sub m g = outer_step u ?ids es m g" if "g \<in> set ?ids" for m g
    using that assms
    by (auto simp: outer_step_def friendOfFriendships_network my_friends_neighborsOf)
  then have "suggestionsMap u ?ids ?sub = suggestionsMap u ?ids es"
    unfolding suggestionsMap_def by (intro foldl_cong) auto
  then have "suggestionsWithMutual u fs us ?sub = suggestionsWithMutual u fs us es"
    by (simp add: suggestionsWithMutual_def unsorted_suggestions_def)
  moreover have "get_network_friendships (Some u) u es = Inr ?sub"
    by (simp add: get_network_friendships_def)
  ultimately show ?thesis by blast
qed

text \<open>
  The second scenario of the specification, edges (1,2), (1,3), (2,4), (3,4), with one
  row stored the other way round and a further edge (5,6) outside the network of 1.
\<close>

theorem network_rows_same_suggestions_witness:
  "set (map Profile.user_id [person ''2'', person ''3''])
     \<subseteq> set (neighborsOf
        [edge ''1'' ''2'', edge ''3'' ''1'', edge ''2'' ''4'', edge ''5'' ''6'', edge ''3'' ''4''] ''1'')
   \<and> get_network_friendships (Some ''1'') ''1''
        [edge ''1'' ''2'', edge ''3'' ''1'', edge ''2'' ''4'', edge ''5'' ''6'', edge ''3'' ''4'']
       = Inr [edge ''1'' ''2'', edge ''3'' ''1'', edge ''2'' ''4'', edge ''3'' ''4'']
   \<and> suggestionsWithMutual ''1'' [person ''2'', person ''3''] [person ''4'', person ''5'']
        [edge ''1'' ''2'', edge ''3'' ''1'', edge ''2'' ''4'', edge ''3'' ''4'']
       = suggestionsWithMutual ''1'' [person ''2'', person ''3''] [person ''4'', person ''5'']
        [edge ''1'' ''2'', edge ''3'' ''1'', edge ''2'' ''4'', edge ''5'' ''6'', edge ''3'' ''4'']"
proof -
  have h: "\<forall>p \<in> set [person ''2'', person ''3''].
      Profile.user_id p \<in> set (neighborsOf
        [edge ''1'' ''2'', edge ''3'' ''1'', edge ''2'' ''4'', edge ''5'' ''6'', edge ''3'' ''4''] ''1'')"
    by code_simp
  have g: "get_network_friendships (Some ''1'') ''1''
        [edge ''1'' ''2'', edge ''3'' ''1'', edge ''2'' ''4'', edge ''5'' ''6'', edge ''3'' ''4'']
       = Inr [edge ''1'' ''2'', edge ''3'' ''1'', edge ''2'' ''4'', edge ''3'' ''4'']"
    by code_simp
  from network_rows_same_suggestions [OF h, of "[person ''4'', person ''5'']"] g h
  show ?thesis by auto
qed

section \<open>Properties of the write path\<close>

lemma insert_rows_Inr:
  "insert_rows auth_uid rows new = Inr rows' \<Longrightarrow> rows' = rows @ new"
proof (induction new arbitrary: rows)
  case Nil
  then show ?case by simp
next
  case (Cons r new)
  from Cons.prems have "insert_rows auth_uid (rows @ [r]) new = Inr rows'"
    by (simp split: option.splits)
  then have "rows' = (rows @ [r]) @ new" by (rule Cons.IH)
  then show ?case by simp
qed

lemma insert_statement_Inr:
  "insert_statement auth_uid profs rows new = Inr rows' \<Longrightarrow> rows' = rows @ new"
  by (auto simp: insert_statement_def split: sum.splits if_splits dest: insert_rows_Inr)

lemma toasts_loadData: "prefix (toasts st) (toasts (loadData user db st))"
  by (auto simp: loadData_def loadProfile_def loadFriends_def loadAllUsers_def toast_error_def
      split: option.splits sum.splits)

lemma delete_policy_own: "delete_filter a b f \<Longrightarrow> delete_policy a f"
  by (auto simp: delete_filter_def delete_policy_def)

lemma unique_violation:
  "(Friendship.user_id r, friend_id r) \<in> set (map (\<lambda>f. (Friendship.user_id f, friend_id f)) rows)
   \<Longrightarrow> violation auth_uid rows r \<noteq> None"
  by (simp add: violation_def)

lemma insert_existing_fails:
  assumes "\<exists>f \<in> set rows. delete_filter a b f"
  shows "isl (insert_statement auth_uid profs rows
           [\<lparr>Friendship.id = i, user_id = a, friend_id = b\<rparr>,
            \<lparr>Friendship.id = j, user_id = b, friend_id = a\<rparr>])"
proof -
  let ?r1 = "\<lparr>Friendship.id = i, user_id = a, friend_id = b\<rparr>"
  let ?r2 = "\<lparr>Friendship.id = j, user_id = b, friend_id = a\<rparr>"
  from assms consider
      "(a, b) \<in> set (map (\<lambda>f. (Friendship.user_id f, friend_id f)) rows)"
    | "(b, a) \<in> set (map (\<lambda>f. (Friendship.user_id f, friend_id f)) rows)"
    by (force simp: delete_filter_def)
  then show ?thesis
  proof cases
    case 1
    then have "violation auth_uid rows ?r1 \<noteq> None"
      using unique_violation [of ?r1 rows auth_uid] by simp
    then show ?thesis by (auto simp: insert_statement_def)
  next
    case 2
    then have "violation auth_uid (rows @ [?r1]) ?r2 \<noteq> None"
      using unique_violation [of ?r2 "rows @ [?r1]" auth_uid] by simp
    then show ?thesis by (auto simp: insert_statement_def split: option.splits)
  qed
qed

subsection \<open>addFriend\<close>

text \<open>
  C4, as the code has it. When a row for the pair is already stored, in either
  orientation, \<open>addFriend\<close> does not succeed: the store refuses the insert, the page shows
  the failure, and the two tables are as before, so no duplicate row appears.
\<close>

theorem addFriend_existing_edge_refused:
  assumes "\<exists>f \<in> set (friendships bk). delete_filter a b f"
  shows "toasts (snd (addFriend (Some a) b ids db (bk, st)))
           = toasts st @ [Toast_error ''Failed to add friend'']
       \<and> friendships (fst (addFriend (Some a) b ids db (bk, st))) = friendships bk
       \<and> profiles (fst (addFriend (Some a) b ids db (bk, st))) = profiles bk"
proof -
  let ?new = "[\<lparr>Friendship.id = fst ids, user_id = a, friend_id = b\<rparr>,
               \<lparr>Friendship.id = snd ids, user_id = b, friend_id = a\<rparr>]"
  have "isl (insert_statement a (profiles bk) (friendships bk) ?new)"
    using assms by (rule insert_existing_fails)
  then obtain e where e: "insert_statement a (profiles bk) (friendships bk) ?new = Inl e"
    unfolding isl_def by blast
  have "\<exists>e'. insert_friendships a ?new bk
      = (Some e', bk\<lparr>sent := sent bk @ [Insert [(a, b), (b, a)]]\<rparr>)"
    by (simp add: insert_friendships_def Let_def e)
  then show ?thesis
    by (auto simp: addFriend_def Let_def toast_error_def)
qed

text \<open>A store that holds the pair as the single row (b,a).\<close>

theorem addFriend_existing_edge_refused_witness:
  "(\<exists>f \<in> set (friendships (store [''a'', ''b''] [edge ''b'' ''a''])). delete_filter ''a'' ''b'' f)
   \<and> toasts (snd (addFriend (Some ''a'') ''b'' (''r3'', ''r4'') unreachable
        (store [''a'', ''b''] [edge ''b'' ''a''], initial)))
       = [Toast_error ''Failed to add friend'']
   \<and> friendships (fst (addFriend (Some ''a'') ''b'' (''r3'', ''r4'') unreachable
        (store [''a'', ''b''] [edge ''b'' ''a''], initial))) = [edge ''b'' ''a'']"
proof -
  have h: "\<exists>f \<in> set (friendships (store [''a'', ''b''] [edge ''b'' ''a''])).
      delete_filter ''a'' ''b'' f"
    by (simp add: store_def delete_filter_def edge_def)
  from h addFriend_existing_edge_refused [OF h, of "(''r3'', ''r4'')" unreachable initial]
  show ?thesis
    by (simp add: initial_def store_def)
qed

text \<open>
  User \<open>a\<close> adds \<open>b\<close> on an empty table, which stores the two rows, and then adds \<open>b\<close>
  again: the store answers with a unique violation and the page shows the failure.
\<close>

theorem addFriend_twice_fails:
  "friendships (fst (addFriend (Some ''a'') ''b'' (''r1'', ''r2'') unreachable
       (store [''a'', ''b''] [], initial)))
     = [\<lparr>Friendship.id = ''r1'', user_id = ''a'', friend_id = ''b''\<rparr>,
        \<lparr>Friendship.id = ''r2'', user_id = ''b'', friend_id = ''a''\<rparr>]
   \<and> fst (insert_friendships ''a''
        [\<lparr>Friendship.id = ''r3'', user_id = ''a'', friend_id = ''b''\<rparr>,
         \<lparr>Friendship.id = ''r4'', user_id = ''b'', friend_id = ''a''\<rparr>]
        (fst (addFriend (Some ''a'') ''b'' (''r1'', ''r2'') unreachable
           (store [''a'', ''b''] [], initial))))
     = Some UniqueViolation
   \<and> toasts (snd (addFriend (Some ''a'') ''b'' (''r3'', ''r4'') unreachable
       (fst (addFriend (Some ''a'') ''b'' (''r1'', ''r2'') unreachable
           (store [''a'', ''b''] [], initial)), initial)))
     = [Toast_error ''Failed to add friend'']"
  by code_simp

text \<open>
  C5, as the code has it. \<open>addFriend\<close> makes no check of its own: for the user's own id
  it sends the insert of the rows (a,a) and (a,a) like any other. A reachable store
  refuses it by \<open>CHECK (user_id != friend_id)\<close>. The page shows the failure and the two
  tables are as before.
\<close>

theorem addFriend_self_refused_by_store:
  "sent (fst (addFriend (Some a) a ids db (bk, st))) = sent bk @ [Insert [(a, a), (a, a)]]
   \<and> fst (insert_friendships a
        [\<lparr>Friendship.id = fst ids, user_id = a, friend_id = a\<rparr>,
         \<lparr>Friendship.id = snd ids, user_id = a, friend_id = a\<rparr>] bk)
       = Some (if online bk then CheckViolation else TransientStoreFailure)
   \<and> toasts (snd (addFriend (Some a) a ids db (bk, st)))
       = toasts st @ [Toast_error ''Failed to add friend'']
   \<and> friendships (fst (addFriend (Some a) a ids db (bk, st))) = friendships bk
   \<and> profiles (fst (addFriend (Some a) a ids db (bk, st))) = profiles bk"
  by (simp add: addFriend_def insert_friendships_def insert_statement_def Let_def violation_def
      toast_error_def)

text \<open>
  User \<open>a\<close> adds \<open>a\<close>: the insert reaches the store, the store's answer is the check
  violation, and the page shows the failure of the insert.
\<close>

theorem addFriend_self_sends_insert:
  "sent (fst (addFriend (Some ''a'') ''a'' (''r1'', ''r2'') unreachable
       (store [''a'', ''b''] [], initial)))
     = [Insert [(''a'', ''a''), (''a'', ''a'')]]
   \<and> fst (insert_friendships ''a''
        [\<lparr>Friendship.id = ''r1'', user_id = ''a'', friend_id = ''a''\<rparr>,
         \<lparr>Friendship.id = ''r2'', user_id = ''a'', friend_id = ''a''\<rparr>]
        (store [''a'', ''b''] []))
     = Some CheckViolation
   \<and> toasts (snd (addFriend (Some ''a'') ''a'' (''r1'', ''r2'') unreachable
       (store [''a'', ''b''] [], initial)))
     = [Toast_error ''Failed to add friend'']"
  by code_simp

theorem addFriend_self_refused_by_store_witness:
  "fst (insert_friendships ''a''
        [\<lparr>Friendship.id = ''r1'', user_id = ''a'', friend_id = ''a''\<rparr>,
         \<lparr>Friendship.id = ''r2'', user_id = ''a'', friend_id = ''a''\<rparr>]
        (store [''a'', ''b''] [edge ''a'' ''b'']))
       = Some CheckViolation
   \<and> toasts (snd (addFriend (Some ''a'') ''a'' (''r1'', ''r2'') unreachable
        (store [''a'', ''b''] [edge ''a'' ''b''], initial)))
       = [Toast_error ''Failed to add friend'']
   \<and> friendships (fst (addFriend (Some ''a'') ''a'' (''r1'', ''r2'') unreachable
        (store [''a'', ''b''] [edge ''a'' ''b''], initial))) = [edge ''a'' ''b'']"
  using addFriend_self_refused_by_store [of "''a''" "(''r1'', ''r2'')" unreachable
      "store [''a'', ''b''] [edge ''a'' ''b'']" initial]
  by (simp add: store_def initial_def)

text \<open>
  C7. When \<open>addFriend\<close> reports success, the friendship graph read off the stored rows
  has \<open>b\<close> among the neighbours of \<open>a\<close> and \<open>a\<close> among the neighbours of \<open>b\<close>.
\<close>

theorem addFriend_symmetric_neighbors:
  assumes "prefix (toasts st @ [Toast_success ''Friend added successfully!''])
             (toasts (snd (addFriend (Some a) b ids db (bk, st))))"
  shows "b \<in> set (neighborsOf (friendships (fst (addFriend (Some a) b ids db (bk, st)))) a)
       \<and> a \<in> set (neighborsOf (friendships (fst (addFriend (Some a) b ids db (bk, st)))) b)"
proof -
  let ?new = "[\<lparr>Friendship.id = fst ids, user_id = a, friend_id = b\<rparr>,
               \<lparr>Friendship.id = snd ids, user_id = b, friend_id = a\<rparr>]"
  let ?r = "insert_friendships a ?new bk"
  have "fst ?r = None"
  proof (cases "fst ?r")
    case (Some e)
    then have "toasts (snd (addFriend (Some a) b ids db (bk, st)))
        = toasts st @ [Toast_error ''Failed to add friend'']"
      by (simp add: addFriend_def Let_def toast_error_def)
    with assms show ?thesis by simp
  qed simp
  then obtain rows where ins: "insert_statement a (profiles bk) (friendships bk) ?new = Inr rows"
    and r: "snd ?r = bk\<lparr>sent := sent bk @ [Insert (map (\<lambda>f. (Friendship.user_id f, friend_id f)) ?new)],
                         friendships := rows\<rparr>"
    by (auto simp: insert_friendships_def Let_def split: if_splits sum.splits)
  from ins have "rows = friendships bk @ ?new" by (rule insert_statement_Inr)
  moreover have "friendships (fst (addFriend (Some a) b ids db (bk, st))) = rows"
    using r by (simp add: addFriend_def Let_def)
  ultimately show ?thesis
    by (simp add: neighborsOf_def friendIds_def select_friendships_of_def)
qed

theorem addFriend_symmetric_neighbors_witness:
  "prefix (toasts initial @ [Toast_success ''Friend added successfully!''])
     (toasts (snd (addFriend (Some ''a'') ''b'' (''r1'', ''r2'') unreachable
        (store [''a'', ''b''] [], initial))))
   \<and> ''b'' \<in> set (neighborsOf (friendships (fst (addFriend (Some ''a'') ''b'' (''r1'', ''r2'')
        unreachable (store [''a'', ''b''] [], initial)))) ''a'')
   \<and> ''a'' \<in> set (neighborsOf (friendships (fst (addFriend (Some ''a'') ''b'' (''r1'', ''r2'')
        unreachable (store [''a'', ''b''] [], initial)))) ''b'')"
proof -
  have t: "toasts (snd (addFriend (Some ''a'') ''b'' (''r1'', ''r2'') unreachable
        (store [''a'', ''b''] [], initial)))
      = [Toast_success ''Friend added successfully!'', Toast_error ''Failed to load profile'',
         Toast_error ''Failed to load friends'', Toast_error ''Failed to load users'']"
    by code_simp
  have h: "prefix (toasts initial @ [Toast_success ''Friend added successfully!''])
     (toasts (snd (addFriend (Some ''a'') ''b'' (''r1'', ''r2'') unreachable
        (store [''a'', ''b''] [], initial))))"
    unfolding t by (simp add: initial_def)
  from h addFriend_symmetric_neighbors [OF h] show ?thesis by blast
qed

subsection \<open>removeFriend\<close>

text \<open>
  C6. On a reachable store \<open>removeFriend\<close> reports success, and the rows left are those
  that join neither (a,b) nor (b,a): with no such row stored the table is as before, and
  otherwise no row of the pair is left, whichever way round it was stored.
\<close>

theorem removeFriend_either_orientation:
  assumes "online bk"
  shows "prefix (toasts st @ [Toast_success ''Friend removed''])
           (toasts (snd (removeFriend (Some a) b db (bk, st))))
       \<and> friendships (fst (removeFriend (Some a) b db (bk, st)))
           = filter (\<lambda>f. \<not> delete_filter a b f) (friendships bk)
       \<and> ((\<forall>f \<in> set (friendships bk). \<not> delete_filter a b f)
            \<longrightarrow> friendships (fst (removeFriend (Some a) b db (bk, st))) = friendships bk)
       \<and> (\<forall>f \<in> set (friendships (fst (removeFriend (Some a) b db (bk, st)))).
             \<not> (Friendship.user_id f = a \<and> friend_id f = b)
             \<and> \<not> (Friendship.user_id f = b \<and> friend_id f = a))"
proof -
  let ?R = "removeFriend (Some a) b db (bk, st)"
  have del: "delete_friendships a a b bk
      = (None, bk\<lparr>sent := sent bk @ [Delete a b],
                  friendships := filter (\<lambda>f. \<not> delete_filter a b f) (friendships bk)\<rparr>)"
    using assms delete_policy_own [of a b]
    by (auto simp: delete_friendships_def Let_def intro: filter_cong)
  have t: "toasts (snd ?R) = toasts (loadData (Some a) db
             (toast_success ''Friend removed'' (st\<lparr>actionLoading := Some b\<rparr>)))"
    by (simp add: removeFriend_def del Let_def)
  have "prefix (toasts (toast_success ''Friend removed'' (st\<lparr>actionLoading := Some b\<rparr>)))
      (toasts (snd ?R))"
    unfolding t by (rule toasts_loadData)
  then have p: "prefix (toasts st @ [Toast_success ''Friend removed'']) (toasts (snd ?R))"
    by (simp add: toast_success_def)
  have f: "friendships (fst ?R) = filter (\<lambda>f. \<not> delete_filter a b f) (friendships bk)"
    by (simp add: removeFriend_def del Let_def)
  have u: "(\<forall>f \<in> set (friendships bk). \<not> delete_filter a b f)
      \<longrightarrow> friendships (fst ?R) = friendships bk"
    by (simp add: f filter_id_conv)
  have g: "\<forall>f \<in> set (friendships (fst ?R)).
             \<not> (Friendship.user_id f = a \<and> friend_id f = b)
             \<and> \<not> (Friendship.user_id f = b \<and> friend_id f = a)"
    by (auto simp: f delete_filter_def)
  from p f u g show ?thesis by blast
qed

text \<open>
  User \<open>a\<close> removes \<open>b\<close>: once with the pair stored as the row (b,a) beside a row (a,c),
  once with no row of the pair in the table.
\<close>

theorem removeFriend_either_orientation_witness:
  "online (store [''a'', ''b'', ''c''] [edge ''b'' ''a'', edge ''a'' ''c''])
   \<and> friendships (fst (removeFriend (Some ''a'') ''b'' unreachable
        (store [''a'', ''b'', ''c''] [edge ''b'' ''a'', edge ''a'' ''c''], initial)))
       = [edge ''a'' ''c'']
   \<and> filter (delete_filter ''a'' ''b'') (friendships (store [''a'', ''b'', ''c''] [edge ''b'' ''c'']))
       = []
   \<and> friendships (fst (removeFriend (Some ''a'') ''b'' unreachable
        (store [''a'', ''b'', ''c''] [edge ''b'' ''c''], initial)))
       = [edge ''b'' ''c'']
   \<and> prefix [Toast_success ''Friend removed'']
       (toasts (snd (removeFriend (Some ''a'') ''b'' unreachable
          (store [''a'', ''b'', ''c''] [edge ''b'' ''c''], initial))))"
proof -
  have o1: "online (store [''a'', ''b'', ''c''] [edge ''b'' ''a'', edge ''a'' ''c''])"
    and o2: "online (store [''a'', ''b'', ''c''] [edge ''b'' ''c''])"
    by (simp_all add: store_def)
  have n: "\<forall>f \<in> set (friendships (store [''a'', ''b'', ''c''] [edge ''b'' ''c''])).
         \<not> delete_filter ''a'' ''b'' f"
    by (simp add: store_def delete_filter_def edge_def)
  have f1: "filter (\<lambda>f. \<not> delete_filter ''a'' ''b'' f)
      (friendships (store [''a'', ''b'', ''c''] [edge ''b'' ''a'', edge ''a'' ''c'']))
      = [edge ''a'' ''c'']"
    by (simp add: store_def delete_filter_def edge_def)
  have t: "toasts initial = []" by (simp add: initial_def)
  have s: "friendships (store [''a'', ''b'', ''c''] [edge ''b'' ''c'']) = [edge ''b'' ''c'']"
    by (simp add: store_def)
  have e: "filter (delete_filter ''a'' ''b'')
      (friendships (store [''a'', ''b'', ''c''] [edge ''b'' ''c''])) = []"
    by (simp add: store_def delete_filter_def edge_def)
  show ?thesis
    using o1 n f1 e
      removeFriend_either_orientation [OF o1, of initial "''a''" "''b''" unreachable]
      removeFriend_either_orientation [OF o2, of initial "''a''" "''b''" unreachable]
    unfolding t s by simp
qed

section \<open>Properties of the read path\<close>

text \<open>
  C9. When a read answers with an error, the loader that made it leaves the profile, the
  friends, the roster and the suggestions of the page as they were. The cases are the
  profile, the rows of the user's friendships, the profiles of the friends (asked for
  only when there are friends), the roster, and the edge list of \<open>calculateSuggestions\<close>.
\<close>

theorem read_failure_keeps_data:
  "(isl (profile_of db u) \<longrightarrow> same_data (loadProfile (Some u) db st) st)
   \<and> (isl (friendships_of db u) \<longrightarrow> same_data (loadFriends (Some u) db st) st)
   \<and> (friendships_of db u = Inr rows \<and> friendIds u rows \<noteq> []
        \<and> isl (profiles_in db (friendIds u rows))
      \<longrightarrow> same_data (loadFriends (Some u) db st) st)
   \<and> (isl (profiles_except db u) \<longrightarrow> same_data (loadAllUsers (Some u) db st) st)
   \<and> (isl (all_friendships db) \<longrightarrow> same_data (calculateSuggestions (Some u) db st) st)"
  by (auto simp: same_data_def loadProfile_def loadFriends_def loadAllUsers_def
      calculateSuggestions_def toast_error_def isl_def)

text \<open>
  A page with data loaded, against the client whose every read fails, and against one
  that answers the friendship rows and fails on the friends' profiles.
\<close>

theorem read_failure_keeps_data_witness:
  "isl (profile_of unreachable ''a'')
   \<and> isl (friendships_of unreachable ''a'')
   \<and> isl (profiles_except unreachable ''a'')
   \<and> isl (all_friendships unreachable)
   \<and> same_data (loadProfile (Some ''a'') unreachable (initial\<lparr>profile := Some (person ''a'')\<rparr>))
       (initial\<lparr>profile := Some (person ''a'')\<rparr>)
   \<and> same_data (loadFriends (Some ''a'') unreachable (initial\<lparr>friends := [person ''b'']\<rparr>))
       (initial\<lparr>friends := [person ''b'']\<rparr>)
   \<and> same_data (loadAllUsers (Some ''a'') unreachable (initial\<lparr>allUsers := [person ''b'']\<rparr>))
       (initial\<lparr>allUsers := [person ''b'']\<rparr>)
   \<and> same_data (calculateSuggestions (Some ''a'') unreachable
         (initial\<lparr>suggestions := [with_mutual (person ''c'') 1]\<rparr>))
       (initial\<lparr>suggestions := [with_mutual (person ''c'') 1]\<rparr>)
   \<and> friendships_of (unreachable\<lparr>friendships_of := (\<lambda>u. Inr [edge ''a'' ''b''])\<rparr>) ''a''
       = Inr [edge ''a'' ''b'']
   \<and> friendIds ''a'' [edge ''a'' ''b''] \<noteq> []
   \<and> isl (profiles_in (unreachable\<lparr>friendships_of := (\<lambda>u. Inr [edge ''a'' ''b''])\<rparr>)
        (friendIds ''a'' [edge ''a'' ''b'']))
   \<and> same_data (loadFriends (Some ''a'')
         (unreachable\<lparr>friendships_of := (\<lambda>u. Inr [edge ''a'' ''b''])\<rparr>)
         (initial\<lparr>friends := [person ''c'']\<rparr>))
       (initial\<lparr>friends := [person ''c'']\<rparr>)"
proof -
  have a: "isl (profile_of unreachable ''a'')" "isl (friendships_of unreachable ''a'')"
    "isl (profiles_except unreachable ''a'')" "isl (all_friendships unreachable)"
    by (simp_all add: unreachable_def)
  have b: "friendships_of (unreachable\<lparr>friendships_of := (\<lambda>u. Inr [edge ''a'' ''b''])\<rparr>) ''a''
       = Inr [edge ''a'' ''b'']"
    "friendIds ''a'' [edge ''a'' ''b''] \<noteq> []"
    "isl (profiles_in (unreachable\<lparr>friendships_of := (\<lambda>u. Inr [edge ''a'' ''b''])\<rparr>)
        (friendIds ''a'' [edge ''a'' ''b'']))"
    by (simp_all add: unreachable_def friendIds_def)
  show ?thesis
    using a b
      read_failure_keeps_data [where db = unreachable and u = "''a''"
          and st = "initial\<lparr>profile := Some (person ''a'')\<rparr>"]
      read_failure_keeps_data [where db = unreachable and u = "''a''"
          and st = "initial\<lparr>friends := [person ''b'']\<rparr>"]
      read_failure_keeps_data [where db = unreachable and u = "''a''"
          and st = "initial\<lparr>allUsers := [person ''b'']\<rparr>"]
      read_failure_keeps_data [where db = unreachable and u = "''a''"
          and st = "initial\<lparr>suggestions := [with_mutual (person ''c'') 1]\<rparr>"]
      read_failure_keeps_data [where db = "unreachable\<lparr>friendships_of := (\<lambda>u. Inr [edge ''a'' ''b''])\<rparr>"
          and u = "''a''" and rows = "[edge ''a'' ''b'']"
          and st = "initial\<lparr>friends := [person ''c'']\<rparr>"]
    by blast
qed

end
